theory Spec2Isabelle
  imports Main
begin

section \<open>Python values and errors\<close>

text \<open>
  The plugin \<^verbatim>\<open>auto_move.py\<close> keeps four category ids in a key-value partition of the
  host's database and moves a ticket channel between categories when a reply arrives.
  The values it handles are \<^verbatim>\<open>None\<close> and the strings written by its setter commands
  (\<^verbatim>\<open>str(category_id)\<close>). The exceptions the modelled code can raise are the ones of
  \<^verbatim>\<open>int(...)\<close> and of an attribute read on \<^verbatim>\<open>None\<close>.
\<close>

datatype py_value = PyNone | PyStr string

datatype py_error = TypeError | ValueError | AttributeError

text \<open>Truth value of an object in a condition: \<^verbatim>\<open>None\<close> and the empty string are false.\<close>

fun truthy :: "py_value \<Rightarrow> bool" where
  "truthy PyNone = False"
| "truthy (PyStr s) = (s \<noteq> [])"

subsection \<open>The builtin \<^verbatim>\<open>int\<close> on a string\<close>

text \<open>
  \<^verbatim>\<open>int(s)\<close> in base ten accepts, between optional surrounding whitespace, an optional
  sign followed by decimal digits, where single underscores may separate digits; anything
  else raises \<^verbatim>\<open>ValueError\<close>, and \<^verbatim>\<open>int(None)\<close> raises \<^verbatim>\<open>TypeError\<close>.
  Strings are ASCII here: the decimal digits and spaces beyond ASCII that Python also
  accepts, and the interpreter's limit on the number of digits, are not modelled.
\<close>

definition is_space :: "char \<Rightarrow> bool" where
  "is_space c = (c \<in> set [CHR 0x09, CHR 0x0A, CHR 0x0B, CHR 0x0C, CHR 0x0D, CHR 0x20])"

definition is_digit :: "char \<Rightarrow> bool" where
  "is_digit c = (48 \<le> (of_char c :: nat) \<and> (of_char c :: nat) \<le> 57)"

definition digit_val :: "char \<Rightarrow> nat" where
  "digit_val c = of_char c - 48"

definition strip :: "string \<Rightarrow> string" where
  "strip s = rev (dropWhile is_space (rev (dropWhile is_space s)))"

text \<open>The digits after the first one, with the value read so far.\<close>

fun digits :: "nat \<Rightarrow> string \<Rightarrow> nat option" where
  "digits a [] = Some a"
| "digits a (c # cs) =
     (if is_digit c then digits (10 * a + digit_val c) cs
      else if c = CHR ''_'' then
        (case cs of
           [] \<Rightarrow> None
         | d # ds \<Rightarrow> if is_digit d then digits (10 * a + digit_val d) ds else None)
      else None)"

definition parse_nat :: "string \<Rightarrow> nat option" where
  "parse_nat s =
     (case s of
        [] \<Rightarrow> None
      | c # cs \<Rightarrow> if is_digit c then digits (digit_val c) cs else None)"

definition int_of_str :: "string \<Rightarrow> int option" where
  "int_of_str s =
     (case strip s of
        [] \<Rightarrow> None
      | c # cs \<Rightarrow>
          if c = CHR ''-'' then map_option (\<lambda>n. - int n) (parse_nat cs)
          else if c = CHR ''+'' then map_option int (parse_nat cs)
          else map_option int (parse_nat (c # cs)))"

fun py_int :: "py_value \<Rightarrow> py_error + int" where
  "py_int PyNone = Inl TypeError"
| "py_int (PyStr s) = (case int_of_str s of None \<Rightarrow> Inl ValueError | Some n \<Rightarrow> Inr n)"

text \<open>\<^verbatim>\<open>str(n)\<close> of an integer: its decimal digits, after a minus sign when negative.\<close>

definition digit_char :: "nat \<Rightarrow> char" where
  "digit_char d = char_of (48 + d)"

fun str_nat :: "nat \<Rightarrow> string" where
  "str_nat n = (if n < 10 then [digit_char n] else str_nat (n div 10) @ [digit_char (n mod 10)])"

definition py_str :: "int \<Rightarrow> string" where
  "py_str i = (if i < 0 then CHR ''-'' # str_nat (nat (- i)) else str_nat (nat i))"

section \<open>The configuration store\<close>

text \<open>
  \<^verbatim>\<open>self.db\<close> is the plugin's partition of the host database: a collection of documents
  \<^verbatim>\<open>{"_id": key, "value": v}\<close>, at most one per key, written by \<^verbatim>\<open>set_config\<close> only.
  It is a map from the key to the document's value field.
\<close>

type_synonym db = "string \<rightharpoonup> py_value"

text \<open>\<^verbatim>\<open>config['value'] if config else None\<close>, for the document \<^verbatim>\<open>find_one\<close> returns.\<close>

definition get_config :: "db \<Rightarrow> string \<Rightarrow> py_value" where
  "get_config d key = (case d key of None \<Rightarrow> PyNone | Some v \<Rightarrow> v)"

text \<open>\<^verbatim>\<open>find_one_and_update(..., {"$set": {"value": value}}, upsert=True)\<close>.\<close>

definition set_config :: "db \<Rightarrow> string \<Rightarrow> py_value \<Rightarrow> db" where
  "set_config d key v = d(key \<mapsto> v)"

text \<open>The keys of \<^verbatim>\<open>default_keys\<close>, in the order the dictionary lists them; every default is \<^verbatim>\<open>None\<close>.\<close>

definition default_keys :: "(string \<times> py_value) list" where
  "default_keys =
     [(''waiting_user_message_category_id'', PyNone),
      (''waiting_staff_message_category_id'', PyNone),
      (''closing_category_id'', PyNone),
      (''recruitment_id'', PyNone)]"

definition ensure_key :: "string \<times> py_value \<Rightarrow> db \<Rightarrow> db" where
  "ensure_key kv d =
     (if get_config d (fst kv) = PyNone then set_config d (fst kv) (snd kv) else d)"

definition ensure_config_keys :: "db \<Rightarrow> db" where
  "ensure_config_keys d = fold ensure_key default_keys d"

text \<open>The setter commands store the decimal text of the id they are given.\<close>

definition set_waiting_user_message_category :: "db \<Rightarrow> int \<Rightarrow> db" where
  "set_waiting_user_message_category d category_id =
     set_config d ''waiting_user_message_category_id'' (PyStr (py_str category_id))"

definition set_waiting_staff_message_category :: "db \<Rightarrow> int \<Rightarrow> db" where
  "set_waiting_staff_message_category d category_id =
     set_config d ''waiting_staff_message_category_id'' (PyStr (py_str category_id))"

definition set_closing_category :: "db \<Rightarrow> int \<Rightarrow> db" where
  "set_closing_category d category_id =
     set_config d ''closing_category_id'' (PyStr (py_str category_id))"

definition set_recruitment_category :: "db \<Rightarrow> int \<Rightarrow> db" where
  "set_recruitment_category d category_id =
     set_config d ''recruitment_id'' (PyStr (py_str category_id))"

section \<open>The host platform\<close>

text \<open>
  An embed's \<^verbatim>\<open>color\<close> is \<^verbatim>\<open>None\<close> or a colour object with an integer \<^verbatim>\<open>value\<close>.
  A channel has the id of its category (\<^verbatim>\<open>None\<close> outside every category) and the
  messages \<^verbatim>\<open>channel.history()\<close> yields, in the order it yields them.
\<close>

datatype colour = Colour (colour_value: int)

record embed =
  color :: "colour option"

record message =
  embeds :: "embed list"

record channel =
  category_id :: "int option"
  history :: "message list"

text \<open>
  What the code reads of \<^verbatim>\<open>self.bot\<close> and of the platform behind it: the global
  configuration (\<^verbatim>\<open>bot.config.get\<close>; the colours are held as integers), the ids
  \<^verbatim>\<open>bot.get_channel\<close> resolves, to a channel of whatever kind, and the platform's
  answer to \<^verbatim>\<open>channel.edit(category=...)\<close> for a target: \<^verbatim>\<open>None\<close> when it accepts the
  request, the text of the exception it raises otherwise. Which of the channels are
  categories is a fact of the platform that the code never asks for.
\<close>

record bot =
  config :: "string \<rightharpoonup> int"
  channels :: "int \<Rightarrow> bool"
  categories :: "int \<Rightarrow> bool"
  edit_failure :: "int \<Rightarrow> string option"

definition get_global_config :: "bot \<Rightarrow> string \<Rightarrow> int option" where
  "get_global_config b key = config b key"

definition get_channel :: "bot \<Rightarrow> int \<Rightarrow> int option" where
  "get_channel b cid = (if channels b cid then Some cid else None)"

text \<open>
  What one call does to the platform, in order: the history request, the request to move
  the channel under a category, a line printed to the operator's console, a pause of
  some seconds, a message sent to the invoking user.
\<close>

datatype effect = FetchHistory | EditCategory int | Print string | Sleep nat | Send string

text \<open>
  The outcome of a call: the exception that left it, if any, the channel object as the
  call leaves it, and the effects it had. The code assigns nothing to the channel
  object: \<^verbatim>\<open>move_channel\<close> drops what \<^verbatim>\<open>channel.edit\<close> returns, and where the platform
  puts the channel after a request shows to a later call as its input.
\<close>

record run =
  raised :: "py_error option"
  chan :: channel
  effects :: "effect list"

definition after :: "effect list \<Rightarrow> run \<Rightarrow> run" where
  "after es r = r\<lparr>effects := es @ effects r\<rparr>"

section \<open>Relocation\<close>

text \<open>
  \<^verbatim>\<open>move_channel\<close>: the id is converted first, outside the \<^verbatim>\<open>try\<close>; the edit is
  requested when the target resolves and differs from the channel's category; an
  exception of the edit is caught and printed.
\<close>

definition move_channel :: "bot \<Rightarrow> channel \<Rightarrow> py_value \<Rightarrow> run" where
  "move_channel b ch cid =
     (case py_int cid of
        Inl e \<Rightarrow> \<lparr>raised = Some e, chan = ch, effects = []\<rparr>
      | Inr c \<Rightarrow>
          (case get_channel b c of
             None \<Rightarrow> \<lparr>raised = None, chan = ch, effects = []\<rparr>
           | Some target_category \<Rightarrow>
               if category_id ch \<noteq> Some c then
                 (case edit_failure b target_category of
                    None \<Rightarrow>
                      \<lparr>raised = None, chan = ch, effects = [EditCategory target_category]\<rparr>
                  | Some e \<Rightarrow>
                      \<lparr>raised = None, chan = ch,
                       effects = [EditCategory target_category,
                                  Print (''Failed to move the channel: '' @ e)]\<rparr>)
               else \<lparr>raised = None, chan = ch, effects = []\<rparr>))"

text \<open>
  The command \<^verbatim>\<open>movetoclosingcategory\<close>, on the channel it is typed in; \<open>is_thread\<close>
  tells whether \<^verbatim>\<open>bot.threads.find\<close> found a thread for the channel.
\<close>

definition move_to_closing_category :: "bot \<Rightarrow> db \<Rightarrow> channel \<Rightarrow> bool \<Rightarrow> run" where
  "move_to_closing_category b d ch is_thread =
     after [Sleep 3]
       (if is_thread then
          (let closing = get_config d ''closing_category_id'' in
           if closing \<noteq> PyNone then move_channel b ch closing
           else \<lparr>raised = None, chan = ch,
                 effects = [Send ''The closing category ID is not configured.'']\<rparr>)
        else \<lparr>raised = None, chan = ch,
              effects = [Send ''This command must be used in a thread channel.'']\<rparr>)"

section \<open>The activity scan\<close>

text \<open>
  \<^verbatim>\<open>has_mod_replied\<close>: the inner loop over one message's embeds reads
  \<^verbatim>\<open>embed.color.value\<close>, which raises \<^verbatim>\<open>AttributeError\<close> when the colour is \<^verbatim>\<open>None\<close>.
  \<open>scan_embeds\<close> returns \<open>Inr True\<close> for \<^verbatim>\<open>return True\<close> and \<open>Inr False\<close> when the
  loop ends and the outer loop goes on.
\<close>

fun scan_embeds :: "int option \<Rightarrow> embed list \<Rightarrow> py_error + bool" where
  "scan_embeds mod_color [] = Inr False"
| "scan_embeds mod_color (e # es) =
     (case color e of
        None \<Rightarrow> Inl AttributeError
      | Some c \<Rightarrow> if Some (colour_value c) = mod_color then Inr True
                  else scan_embeds mod_color es)"

fun scan_history :: "int option \<Rightarrow> message list \<Rightarrow> py_error + bool" where
  "scan_history mod_color [] = Inr False"
| "scan_history mod_color (m # ms) =
     (case scan_embeds mod_color (embeds m) of
        Inl e \<Rightarrow> Inl e
      | Inr found \<Rightarrow> if found then Inr True else scan_history mod_color ms)"

definition has_mod_replied :: "bot \<Rightarrow> channel \<Rightarrow> py_error + bool" where
  "has_mod_replied b ch = scan_history (get_global_config b ''mod_color'') (history ch)"

section \<open>The reply handler\<close>

text \<open>
  \<^verbatim>\<open>on_thread_reply(thread, from_mod, ...)\<close>, on \<^verbatim>\<open>thread.channel\<close>. The scan is its first
  statement; then the recruitment test, whose \<^verbatim>\<open>and\<close> converts the stored id only
  when it is true in a condition; then the choice of the target by the sender, and the
  call of \<^verbatim>\<open>move_channel\<close> when the target is true in a condition.
\<close>

definition on_thread_reply :: "bot \<Rightarrow> db \<Rightarrow> channel \<Rightarrow> bool \<Rightarrow> run" where
  "on_thread_reply b d ch from_mod =
     (case has_mod_replied b ch of
        Inl e \<Rightarrow> \<lparr>raised = Some e, chan = ch, effects = [FetchHistory]\<rparr>
      | Inr mod_has_replied \<Rightarrow>
          (let recruitment_category_id = get_config d ''recruitment_id'' in
           case (if truthy recruitment_category_id
                 then (case py_int recruitment_category_id of
                         Inl e \<Rightarrow> Inl e
                       | Inr r \<Rightarrow> Inr (category_id ch = Some r))
                 else Inr False) of
             Inl e \<Rightarrow> \<lparr>raised = Some e, chan = ch, effects = [FetchHistory]\<rparr>
           | Inr exempt \<Rightarrow>
               if exempt then \<lparr>raised = None, chan = ch, effects = [FetchHistory]\<rparr>
               else
                 (let target =
                        (if from_mod then get_config d ''waiting_user_message_category_id''
                         else if mod_has_replied
                         then get_config d ''waiting_staff_message_category_id''
                         else PyNone)
                  in if truthy target then after [FetchHistory] (move_channel b ch target)
                     else \<lparr>raised = None, chan = ch, effects = [FetchHistory]\<rparr>)))"

section \<open>Vocabulary of the specification\<close>

text \<open>
  The staff marker: an embed whose colour value is the configured \<^verbatim>\<open>mod_color\<close>; a
  message is staff-marked when one of its embeds is.
\<close>

definition is_mod_embed :: "bot \<Rightarrow> embed \<Rightarrow> bool" where
  "is_mod_embed b e =
     (case color e of
        None \<Rightarrow> False
      | Some c \<Rightarrow> Some (colour_value c) = get_global_config b ''mod_color'')"

definition staff_marked :: "bot \<Rightarrow> message \<Rightarrow> bool" where
  "staff_marked b m = list_ex (is_mod_embed b) (embeds m)"

text \<open>
  The routing decision of a reply event, read off what the handler asked of the
  platform: the move it requested, or none.
\<close>

datatype decision = MoveTo int | NoOp

fun requested :: "effect list \<Rightarrow> decision" where
  "requested [] = NoOp"
| "requested (EditCategory c # es) = MoveTo c"
| "requested (FetchHistory # es) = requested es"
| "requested (Print s # es) = requested es"
| "requested (Sleep n # es) = requested es"
| "requested (Send s # es) = requested es"

definition decision_of :: "run \<Rightarrow> decision" where
  "decision_of r = requested (effects r)"

text \<open>
  A stored id is well formed when it is unset, empty or text that \<^verbatim>\<open>int\<close> accepts;
  every value a setter command writes is. A channel is in the recruitment category when
  the recruitment id is set and converts to the channel's category id.
\<close>

definition well_formed :: "py_value \<Rightarrow> bool" where
  "well_formed v = (case v of PyNone \<Rightarrow> True | PyStr s \<Rightarrow> s = [] \<or> int_of_str s \<noteq> None)"

definition in_recruitment :: "db \<Rightarrow> channel \<Rightarrow> bool" where
  "in_recruitment d ch =
     (case get_config d ''recruitment_id'' of
        PyNone \<Rightarrow> False
      | PyStr s \<Rightarrow>
          (case int_of_str s of None \<Rightarrow> False | Some r \<Rightarrow> category_id ch = Some r))"

text \<open>An id resolves to an existing category: a channel of the platform that is a category.\<close>

definition existing_category :: "bot \<Rightarrow> int \<Rightarrow> bool" where
  "existing_category b c = (channels b c \<and> categories b c)"

text \<open>
  The embeds of a channel's history in the order the scan reads them, and the ones it
  reads before it meets a staff-marked one.
\<close>

definition all_embeds :: "channel \<Rightarrow> embed list" where
  "all_embeds ch = concat (map embeds (history ch))"

definition scanned_before_match :: "bot \<Rightarrow> channel \<Rightarrow> embed list" where
  "scanned_before_match b ch = takeWhile (\<lambda>e. \<not> is_mod_embed b e) (all_embeds ch)"

text \<open>The value of a run of decimal digits, continuing from \<open>a\<close>.\<close>

definition dec_val :: "nat \<Rightarrow> string \<Rightarrow> nat" where
  "dec_val a cs = foldl (\<lambda>a c. 10 * a + digit_val c) a cs"

subsection \<open>A deployment to run the handler on\<close>

text \<open>
  The scenario of the specification: the four categories configured through the setter
  commands (waiting on user 101, waiting on staff 102, closing 103, recruitment 104), a
  platform that knows these four categories and accepts every request, and the host's
  default staff colour. A staff reply carries the staff colour, a relayed user message
  the recipient colour, and a link preview attached by the platform carries no colour.
\<close>

definition demo_bot :: bot where
  "demo_bot =
     \<lparr>config = [''mod_color'' \<mapsto> 3066993],
      channels = (\<lambda>c. c \<in> {101, 102, 103, 104}),
      categories = (\<lambda>c. c \<in> {101, 102, 103, 104}),
      edit_failure = (\<lambda>c. None)\<rparr>"

definition demo_db :: db where
  "demo_db =
     set_recruitment_category
       (set_closing_category
          (set_waiting_staff_message_category
             (set_waiting_user_message_category (ensure_config_keys Map.empty) 101) 102) 103) 104"

definition staff_reply :: message where
  "staff_reply = \<lparr>embeds = [\<lparr>color = Some (Colour 3066993)\<rparr>]\<rparr>"

definition user_message :: message where
  "user_message = \<lparr>embeds = [\<lparr>color = Some (Colour 15844367)\<rparr>]\<rparr>"

definition link_preview :: message where
  "link_preview = \<lparr>embeds = [\<lparr>color = None\<rparr>]\<rparr>"

section \<open>Decimal text of an id\<close>

declare str_nat.simps [simp del]

lemma is_digit_digit_char: "d < 10 \<Longrightarrow> is_digit (digit_char d)"
  by (simp add: is_digit_def digit_char_def)

lemma digit_val_digit_char: "d < 10 \<Longrightarrow> digit_val (digit_char d) = d"
  by (simp add: digit_val_def digit_char_def)

lemma is_digit_not_space: "is_digit c \<Longrightarrow> \<not> is_space c"
  by (auto simp: is_digit_def is_space_def)

lemma is_digit_not_sign: "is_digit c \<Longrightarrow> c \<noteq> CHR ''-'' \<and> c \<noteq> CHR ''+''"
  by (auto simp: is_digit_def)

lemma minus_not_space: "\<not> is_space CHR ''-''"
  by (simp add: is_space_def)

lemma str_nat_digits: "\<forall>c\<in>set (str_nat n). is_digit c"
proof (induction n rule: str_nat.induct)
  case (1 n)
  show ?case
  proof (cases "n < 10")
    case True
    then show ?thesis by (simp add: str_nat.simps [of n] is_digit_digit_char)
  next
    case False
    with 1 show ?thesis by (simp add: str_nat.simps [of n] is_digit_digit_char)
  qed
qed

lemma str_nat_nonempty: "str_nat n \<noteq> []"
  by (subst str_nat.simps) simp

lemma hd_str_nat_digit: "is_digit (hd (str_nat n))"
  using str_nat_digits [of n] str_nat_nonempty [of n] hd_in_set by blast

lemma last_str_nat_digit: "is_digit (last (str_nat n))"
  using str_nat_digits [of n] str_nat_nonempty [of n] last_in_set by blast

lemma digits_all_digits: "\<forall>c\<in>set cs. is_digit c \<Longrightarrow> digits a cs = Some (dec_val a cs)"
  by (induction cs arbitrary: a) (simp_all add: dec_val_def)

lemma dec_val_str_nat: "dec_val 0 (str_nat n) = n"
proof (induction n rule: str_nat.induct)
  case (1 n)
  show ?case
  proof (cases "n < 10")
    case True
    then show ?thesis by (simp add: str_nat.simps [of n] dec_val_def digit_val_digit_char)
  next
    case False
    with 1 have "dec_val 0 (str_nat (n div 10)) = n div 10" by simp
    with False show ?thesis
      by (simp add: str_nat.simps [of n] dec_val_def digit_val_digit_char)
  qed
qed

lemma parse_nat_str_nat: "parse_nat (str_nat n) = Some n"
proof (cases "str_nat n")
  case Nil
  then show ?thesis by (simp add: str_nat_nonempty)
next
  case (Cons c cs)
  with str_nat_digits [of n] have d: "is_digit c" "\<forall>x\<in>set cs. is_digit x" by simp_all
  have "dec_val (digit_val c) cs = dec_val 0 (c # cs)" by (simp add: dec_val_def)
  with Cons dec_val_str_nat [of n] have "dec_val (digit_val c) cs = n" by simp
  with d Cons show ?thesis by (simp add: parse_nat_def digits_all_digits)
qed

lemma strip_id:
  assumes "s \<noteq> []" and "\<not> is_space (hd s)" and "\<not> is_space (last s)"
  shows "strip s = s"
proof -
  from assms(1,2) have "dropWhile is_space s = s" by (cases s) simp_all
  moreover from assms(1,3) have "dropWhile is_space (rev s) = rev s"
    by (cases "rev s") (simp_all add: hd_rev [symmetric])
  ultimately show ?thesis by (simp add: strip_def)
qed

lemma strip_py_str: "strip (py_str i) = py_str i"
proof (rule strip_id)
  show "py_str i \<noteq> []" by (simp add: py_str_def str_nat_nonempty)
  show "\<not> is_space (hd (py_str i))"
    by (simp add: py_str_def minus_not_space is_digit_not_space hd_str_nat_digit)
  show "\<not> is_space (last (py_str i))"
    by (simp add: py_str_def str_nat_nonempty is_digit_not_space last_str_nat_digit)
qed

text \<open>\<^verbatim>\<open>int(str(i)) == i\<close>: what a setter command stores converts back to the id.\<close>

lemma int_of_str_py_str: "int_of_str (py_str i) = Some i"
proof (cases "i < 0")
  case True
  then show ?thesis
    by (simp add: int_of_str_def strip_py_str) (simp add: py_str_def parse_nat_str_nat)
next
  case False
  obtain c cs where cs: "str_nat (nat i) = c # cs"
    using str_nat_nonempty [of "nat i"] by (cases "str_nat (nat i)") auto
  with hd_str_nat_digit [of "nat i"] have "is_digit c" by simp
  then have "c \<noteq> CHR ''-''" "c \<noteq> CHR ''+''" using is_digit_not_sign by blast+
  moreover from False cs have "py_str i = c # cs" by (simp add: py_str_def)
  moreover have "parse_nat (c # cs) = Some (nat i)"
    using parse_nat_str_nat [of "nat i"] cs by simp
  ultimately show ?thesis using False strip_py_str [of i] by (simp add: int_of_str_def)
qed

lemma py_int_py_str: "py_int (PyStr (py_str i)) = Inr i"
  by (simp add: int_of_str_py_str)

lemma truthy_py_str: "truthy (PyStr (py_str i))"
  by (simp add: py_str_def str_nat_nonempty)

lemma well_formed_py_str: "well_formed (PyStr (py_str i))"
  by (simp add: well_formed_def int_of_str_py_str)

lemma int_of_str_empty: "int_of_str [] = None"
  by (simp add: int_of_str_def strip_def)

section \<open>Facts about the scan\<close>

lemma scan_embeds_append:
  "scan_embeds mc (xs @ ys) =
     (case scan_embeds mc xs of
        Inl e \<Rightarrow> Inl e
      | Inr found \<Rightarrow> if found then Inr True else scan_embeds mc ys)"
  by (induction xs) (auto split: option.splits)

lemma scan_history_concat:
  "scan_history mc ms = scan_embeds mc (concat (map embeds ms))"
  by (induction ms) (auto simp: scan_embeds_append split: sum.splits)

lemma scan_embeds_char:
  "scan_embeds mc es =
     (if list_all (\<lambda>e. color e \<noteq> None)
           (takeWhile (\<lambda>e. \<not> (case color e of None \<Rightarrow> False
                                | Some c \<Rightarrow> Some (colour_value c) = mc)) es)
      then Inr (list_ex (\<lambda>e. case color e of None \<Rightarrow> False
                              | Some c \<Rightarrow> Some (colour_value c) = mc) es)
      else Inl AttributeError)"
  by (induction es) (auto split: option.splits)

lemma list_ex_concat: "list_ex P (concat xss) = list_ex (list_ex P) xss"
  by (induction xss) (auto simp: list_ex_iff)

text \<open>
  The scan, in one equation: it fails when an embed without colour comes before every
  staff-marked one, and otherwise tells whether a staff-marked message exists.
\<close>

lemma has_mod_replied_char:
  "has_mod_replied b ch =
     (if list_all (\<lambda>e. color e \<noteq> None) (scanned_before_match b ch)
      then Inr (list_ex (staff_marked b) (history ch))
      else Inl AttributeError)"
proof -
  have m: "is_mod_embed b = (\<lambda>e. case color e of None \<Rightarrow> False
              | Some c \<Rightarrow> Some (colour_value c) = get_global_config b ''mod_color'')"
    by (rule ext) (simp add: is_mod_embed_def)
  have s: "staff_marked b = list_ex (is_mod_embed b) \<circ> embeds"
    by (rule ext) (simp add: staff_marked_def)
  have "list_ex (staff_marked b) (history ch) = list_ex (is_mod_embed b) (all_embeds ch)"
    by (simp add: all_embeds_def list_ex_concat s list_ex_iff)
  then show ?thesis
    unfolding has_mod_replied_def scan_history_concat scanned_before_match_def
    by (subst scan_embeds_char) (simp add: m all_embeds_def)
qed

lemma has_mod_replied_Inr:
  "has_mod_replied b ch = Inr m \<Longrightarrow> m = list_ex (staff_marked b) (history ch)"
  by (simp add: has_mod_replied_char split: if_splits)

lemma has_mod_replied_Inl:
  "has_mod_replied b ch = Inl e \<Longrightarrow> e = AttributeError"
  by (simp add: has_mod_replied_char split: if_splits)

section \<open>Facts about the handler\<close>

lemma raised_after [simp]: "raised (after es r) = raised r"
  by (simp add: after_def)

lemma chan_after [simp]: "chan (after es r) = chan r"
  by (simp add: after_def)

lemma effects_after [simp]: "effects (after es r) = es @ effects r"
  by (simp add: after_def)

lemma in_recruitment_test:
  "in_recruitment d ch \<Longrightarrow>
     truthy (get_config d ''recruitment_id'') \<and>
     (\<exists>r. py_int (get_config d ''recruitment_id'') = Inr r \<and> category_id ch = Some r)"
  by (auto simp: in_recruitment_def int_of_str_empty split: py_value.splits option.splits)

lemma py_int_truthy: "py_int v = Inr c \<Longrightarrow> truthy v"
  by (cases v) (auto simp: int_of_str_empty split: option.splits)

lemma py_int_not_TypeError: "truthy v \<Longrightarrow> py_int v \<noteq> Inl TypeError"
  by (cases v) (auto split: option.splits)

lemma on_thread_reply_scan_failed:
  "has_mod_replied b ch = Inl e \<Longrightarrow>
     on_thread_reply b d ch from_mod = \<lparr>raised = Some e, chan = ch, effects = [FetchHistory]\<rparr>"
  by (simp add: on_thread_reply_def)

lemma on_thread_reply_exempt:
  "has_mod_replied b ch = Inr m \<Longrightarrow> in_recruitment d ch \<Longrightarrow>
     on_thread_reply b d ch from_mod = \<lparr>raised = None, chan = ch, effects = [FetchHistory]\<rparr>"
  using in_recruitment_test [of d ch] by (auto simp: on_thread_reply_def)

text \<open>
  Past the scan and the recruitment test, the handler is the choice of the target and
  the guarded call of \<open>move_channel\<close>.
\<close>

lemma on_thread_reply_routed:
  assumes "has_mod_replied b ch = Inr m"
    and "well_formed (get_config d ''recruitment_id'')"
    and "\<not> in_recruitment d ch"
  shows "on_thread_reply b d ch from_mod =
     (let target =
            (if from_mod then get_config d ''waiting_user_message_category_id''
             else if m then get_config d ''waiting_staff_message_category_id''
             else PyNone)
      in if truthy target then after [FetchHistory] (move_channel b ch target)
         else \<lparr>raised = None, chan = ch, effects = [FetchHistory]\<rparr>)"
  using assms
  by (auto simp: on_thread_reply_def well_formed_def in_recruitment_def Let_def
           split: py_value.splits option.splits)

lemma move_channel_moves:
  assumes "py_int cid = Inr c" and "channels b c" and "category_id ch \<noteq> Some c"
  shows "move_channel b ch cid =
     (case edit_failure b c of
        None \<Rightarrow> \<lparr>raised = None, chan = ch, effects = [EditCategory c]\<rparr>
      | Some e \<Rightarrow> \<lparr>raised = None, chan = ch,
                   effects = [EditCategory c, Print (''Failed to move the channel: '' @ e)]\<rparr>)"
  using assms by (simp add: move_channel_def get_channel_def)

lemma move_channel_unresolved:
  "py_int cid = Inr c \<Longrightarrow> \<not> channels b c \<Longrightarrow>
     move_channel b ch cid = \<lparr>raised = None, chan = ch, effects = []\<rparr>"
  by (simp add: move_channel_def get_channel_def)

lemma move_channel_already_there:
  "py_int cid = Inr c \<Longrightarrow> category_id ch = Some c \<Longrightarrow>
     move_channel b ch cid = \<lparr>raised = None, chan = ch, effects = []\<rparr>"
  by (simp add: move_channel_def get_channel_def)

lemma move_channel_raised:
  "raised (move_channel b ch cid) = (case py_int cid of Inl e \<Rightarrow> Some e | Inr c \<Rightarrow> None)"
  by (simp add: move_channel_def split: sum.splits option.splits)

lemma move_channel_history:
  "move_channel b (ch\<lparr>history := h\<rparr>) cid =
     (move_channel b ch cid)\<lparr>chan := (chan (move_channel b ch cid))\<lparr>history := h\<rparr>\<rparr>"
  by (simp add: move_channel_def split: sum.splits option.splits)

text \<open>
  With the target unset, and the scan and the recruitment test behind it, the handler
  returns without a word: the history request is all it did.
\<close>

lemma on_thread_reply_unset_target:
  assumes "has_mod_replied b ch = Inr m"
    and "well_formed (get_config d ''recruitment_id'')"
    and "(if from_mod then get_config d ''waiting_user_message_category_id''
          else get_config d ''waiting_staff_message_category_id'') = PyNone"
  shows "on_thread_reply b d ch from_mod =
           \<lparr>raised = None, chan = ch, effects = [FetchHistory]\<rparr>"
proof (cases "in_recruitment d ch")
  case True
  with assms(1) show ?thesis by (simp add: on_thread_reply_exempt)
next
  case False
  with assms show ?thesis by (auto simp: on_thread_reply_routed split: if_splits)
qed

text \<open>
  On a history whose embeds all carry a colour the scan is the presence test of the
  specification.
\<close>

lemma has_mod_replied_coloured:
  assumes "list_all (\<lambda>e. color e \<noteq> None) (all_embeds ch)"
  shows "has_mod_replied b ch = Inr (list_ex (staff_marked b) (history ch))"
proof -
  have "set (scanned_before_match b ch) \<subseteq> set (all_embeds ch)"
    by (auto simp: scanned_before_match_def dest: set_takeWhileD)
  with assms have "list_all (\<lambda>e. color e \<noteq> None) (scanned_before_match b ch)"
    by (auto simp: list_all_iff)
  then show ?thesis by (simp add: has_mod_replied_char)
qed

text \<open>The stored ids of the scenario.\<close>

lemma demo_db_recruitment: "get_config demo_db ''recruitment_id'' = PyStr ''104''"
  by code_simp

lemma demo_db_waiting_user:
  "get_config demo_db ''waiting_user_message_category_id'' = PyStr ''101''"
  by code_simp

lemma demo_db_waiting_staff:
  "get_config demo_db ''waiting_staff_message_category_id'' = PyStr ''102''"
  by code_simp

text \<open>
  \<^verbatim>\<open>int\<close> is never given \<^verbatim>\<open>None\<close>: the reply handler converts an id only after it has
  tested it in a condition, and the closing command only after \<^verbatim>\<open>is not None\<close>.
\<close>

lemma on_thread_reply_no_TypeError:
  "raised (on_thread_reply b d ch from_mod) \<noteq> Some TypeError"
proof (cases "has_mod_replied b ch")
  case (Inl e)
  then show ?thesis
    using has_mod_replied_Inl [of b ch e] by (simp add: on_thread_reply_scan_failed)
next
  case (Inr m)
  then show ?thesis
    by (auto simp: on_thread_reply_def Let_def move_channel_raised py_int_not_TypeError
             split: sum.splits)
qed

lemma move_to_closing_category_no_TypeError:
  "raised (move_to_closing_category b d ch is_thread) \<noteq> Some TypeError"
  by (cases "get_config d ''closing_category_id''")
     (auto simp: move_to_closing_category_def Let_def move_channel_raised
           split: option.splits)

lemma in_recruitment_history: "in_recruitment d (ch\<lparr>history := h\<rparr>) = in_recruitment d ch"
  by (simp add: in_recruitment_def split: py_value.splits option.splits)

section \<open>Facts about the store\<close>

lemma ensure_config_keys_apply:
  "ensure_config_keys d key =
     (if key \<in> fst ` set default_keys \<and> get_config d key = PyNone then Some PyNone
      else d key)"
  by (simp add: ensure_config_keys_def default_keys_def ensure_key_def get_config_def
                set_config_def split: option.splits)

lemma get_config_ensure_config_keys:
  "get_config (ensure_config_keys d) key = get_config d key"
  by (simp add: get_config_def ensure_config_keys_apply split: option.splits)

lemma ensure_config_keys_twice:
  "ensure_config_keys (ensure_config_keys d) = ensure_config_keys d"
proof
  fix key
  show "ensure_config_keys (ensure_config_keys d) key = ensure_config_keys d key"
    by (subst ensure_config_keys_apply)
       (simp add: get_config_ensure_config_keys, simp add: ensure_config_keys_apply)
qed

lemma dom_ensure_config_keys:
  "dom (ensure_config_keys d) = dom d \<union> fst ` set default_keys"
  by (auto simp: ensure_config_keys_apply get_config_def dom_def split: if_splits option.splits)

lemma get_config_set_config:
  "get_config (set_config d key v) key' = (if key' = key then v else get_config d key')"
  by (simp add: get_config_def set_config_def)

text \<open>
  An id written by a setter command is read back as that id: the recruitment test
  compares the channel's category with it, and the stored value is well formed.
\<close>

lemma in_recruitment_set_recruitment_category:
  "in_recruitment (set_recruitment_category d r) ch = (category_id ch = Some r)"
  by (simp add: in_recruitment_def set_recruitment_category_def get_config_set_config
                int_of_str_py_str)

lemma well_formed_set_recruitment_category:
  "well_formed (get_config (set_recruitment_category d r) ''recruitment_id'')"
  by (simp add: set_recruitment_category_def get_config_set_config well_formed_py_str)

lemma well_formed_unset:
  "get_config d ''recruitment_id'' = PyNone \<Longrightarrow>
     well_formed (get_config d ''recruitment_id'') \<and> \<not> in_recruitment d ch"
  by (simp add: well_formed_def in_recruitment_def)

text \<open>
  The scenario of the specification, run on the model: a staff reply asks for the move
  to the waiting-on-user category, the user's reply after it, with the channel now
  there, for the move to the waiting-on-staff category, the closing command for the
  move to the closing category; a staff reply on a channel already waiting on the user
  asks for nothing.
\<close>

lemma scenario:
  "on_thread_reply demo_bot demo_db \<lparr>category_id = Some 5, history = [user_message]\<rparr> True =
     \<lparr>raised = None, chan = \<lparr>category_id = Some 5, history = [user_message]\<rparr>,
      effects = [FetchHistory, EditCategory 101]\<rparr>"
  "on_thread_reply demo_bot demo_db
     \<lparr>category_id = Some 101, history = [user_message, staff_reply, user_message]\<rparr> False =
     \<lparr>raised = None,
      chan = \<lparr>category_id = Some 101, history = [user_message, staff_reply, user_message]\<rparr>,
      effects = [FetchHistory, EditCategory 102]\<rparr>"
  "move_to_closing_category demo_bot demo_db \<lparr>category_id = Some 102, history = []\<rparr> True =
     \<lparr>raised = None, chan = \<lparr>category_id = Some 102, history = []\<rparr>,
      effects = [Sleep 3, EditCategory 103]\<rparr>"
  "on_thread_reply demo_bot demo_db \<lparr>category_id = Some 101, history = [user_message]\<rparr> True =
     \<lparr>raised = None, chan = \<lparr>category_id = Some 101, history = [user_message]\<rparr>,
      effects = [FetchHistory]\<rparr>"
  by code_simp+

section \<open>The claims\<close>

text \<open>
  C1. On a channel whose category is the configured recruitment category, a reply event
  never moves the channel, whoever sent the reply and whatever the history holds: the
  decision is NoOp, the history request is the handler's only effect and the channel is
  left as it was. The handler returns normally unless the scan that precedes the
  recruitment test raised.
\<close>

theorem recruitment_exemption:
  assumes "in_recruitment d ch"
  shows "decision_of (on_thread_reply b d ch from_mod) = NoOp
       \<and> effects (on_thread_reply b d ch from_mod) = [FetchHistory]
       \<and> chan (on_thread_reply b d ch from_mod) = ch
       \<and> raised (on_thread_reply b d ch from_mod) =
           (case has_mod_replied b ch of Inl e \<Rightarrow> Some e | Inr m \<Rightarrow> None)"
proof (cases "has_mod_replied b ch")
  case (Inl e)
  then show ?thesis by (simp add: on_thread_reply_scan_failed decision_of_def)
next
  case (Inr m)
  with assms show ?thesis by (simp add: on_thread_reply_exempt decision_of_def)
qed

theorem recruitment_exemption_witness:
  "in_recruitment demo_db \<lparr>category_id = Some 104, history = [staff_reply, user_message]\<rparr>
   \<and> decision_of (on_thread_reply demo_bot demo_db
        \<lparr>category_id = Some 104, history = [staff_reply, user_message]\<rparr> False) = NoOp
   \<and> effects (on_thread_reply demo_bot demo_db
        \<lparr>category_id = Some 104, history = [staff_reply, user_message]\<rparr> False) = [FetchHistory]"
proof -
  have h: "in_recruitment demo_db
             \<lparr>category_id = Some 104, history = [staff_reply, user_message]\<rparr>"
    by code_simp
  from recruitment_exemption [OF h, of demo_bot False] h show ?thesis by simp
qed

text \<open>
  C2. A staff reply does not always move the channel to the waiting-on-user category:
  \<open>move_channel\<close> requests nothing when the platform knows no channel of the configured
  id, and the scan that opens the handler can raise before any routing.
\<close>

theorem staff_reply_not_moved:
  "get_config (set_waiting_user_message_category (ensure_config_keys Map.empty) 999)
     ''waiting_user_message_category_id'' = PyStr ''999''
   \<and> \<not> in_recruitment (set_waiting_user_message_category (ensure_config_keys Map.empty) 999)
         \<lparr>category_id = Some 5, history = [user_message]\<rparr>
   \<and> on_thread_reply demo_bot
        (set_waiting_user_message_category (ensure_config_keys Map.empty) 999)
        \<lparr>category_id = Some 5, history = [user_message]\<rparr> True =
       \<lparr>raised = None, chan = \<lparr>category_id = Some 5, history = [user_message]\<rparr>,
        effects = [FetchHistory]\<rparr>
   \<and> get_config demo_db ''waiting_user_message_category_id'' = PyStr ''101''
   \<and> \<not> in_recruitment demo_db \<lparr>category_id = Some 5, history = [link_preview]\<rparr>
   \<and> on_thread_reply demo_bot demo_db \<lparr>category_id = Some 5, history = [link_preview]\<rparr> True =
       \<lparr>raised = Some AttributeError, chan = \<lparr>category_id = Some 5, history = [link_preview]\<rparr>,
        effects = [FetchHistory]\<rparr>"
  by code_simp

text \<open>
  C2, amended. A staff reply on a channel outside the recruitment category, with the
  waiting-on-user category set to an id the platform resolves and the channel not
  already in it, once the scan that opens the handler has returned: the handler hands
  the channel to \<open>move_channel\<close> with that id, the move to that category is requested
  and no exception leaves the handler.
\<close>

theorem staff_reply_routing:
  assumes "has_mod_replied b ch = Inr m"
    and "well_formed (get_config d ''recruitment_id'')"
    and "\<not> in_recruitment d ch"
    and "get_config d ''waiting_user_message_category_id'' = PyStr s"
    and "int_of_str s = Some c"
    and "channels b c"
    and "category_id ch \<noteq> Some c"
  shows "decision_of (on_thread_reply b d ch True) = MoveTo c
       \<and> on_thread_reply b d ch True = after [FetchHistory] (move_channel b ch (PyStr s))
       \<and> raised (on_thread_reply b d ch True) = None"
proof -
  from assms(5) have p: "py_int (PyStr s) = Inr c" by simp
  then have t: "truthy (PyStr s)" by (rule py_int_truthy)
  from assms(1-4) t
  have r: "on_thread_reply b d ch True = after [FetchHistory] (move_channel b ch (PyStr s))"
    by (simp add: on_thread_reply_routed)
  from p assms(6,7) show ?thesis
    unfolding r decision_of_def
    by (simp add: move_channel_moves [OF p assms(6,7)] split: option.splits)
qed

theorem staff_reply_routing_witness:
  "decision_of (on_thread_reply demo_bot demo_db
     \<lparr>category_id = Some 5, history = [user_message]\<rparr> True) = MoveTo 101
   \<and> raised (on_thread_reply demo_bot demo_db
     \<lparr>category_id = Some 5, history = [user_message]\<rparr> True) = None"
proof -
  let ?ch = "\<lparr>category_id = Some 5, history = [user_message]\<rparr>"
  have 1: "has_mod_replied demo_bot ?ch = Inr False" by code_simp
  have 2: "well_formed (get_config demo_db ''recruitment_id'')" by code_simp
  have 3: "\<not> in_recruitment demo_db ?ch" by code_simp
  have 5: "int_of_str ''101'' = Some 101" by code_simp
  have 6: "channels demo_bot 101" by (simp add: demo_bot_def)
  have 7: "category_id ?ch \<noteq> Some 101" by simp
  note r = staff_reply_routing [OF 1 2 3 demo_db_waiting_user 5 6 7]
  from r have a: "decision_of (on_thread_reply demo_bot demo_db ?ch True) = MoveTo 101"
    by (rule conjunct1)
  from r have "raised (on_thread_reply demo_bot demo_db ?ch True) = None"
    by blast
  with a show ?thesis by (intro conjI)
qed

text \<open>
  C3. A user reply on a channel whose history holds a staff-marked message does not
  always move the channel to the waiting-on-staff category: \<open>move_channel\<close> requests
  nothing when the channel is already there, and the scan raises when an embed without
  colour comes before the staff-marked one.
\<close>

theorem user_reply_not_moved:
  "list_ex (staff_marked demo_bot) [staff_reply]
   \<and> get_config demo_db ''waiting_staff_message_category_id'' = PyStr ''102''
   \<and> \<not> in_recruitment demo_db \<lparr>category_id = Some 102, history = [staff_reply]\<rparr>
   \<and> on_thread_reply demo_bot demo_db \<lparr>category_id = Some 102, history = [staff_reply]\<rparr> False =
       \<lparr>raised = None, chan = \<lparr>category_id = Some 102, history = [staff_reply]\<rparr>,
        effects = [FetchHistory]\<rparr>
   \<and> list_ex (staff_marked demo_bot) [link_preview, staff_reply]
   \<and> \<not> in_recruitment demo_db \<lparr>category_id = Some 5, history = [link_preview, staff_reply]\<rparr>
   \<and> on_thread_reply demo_bot demo_db
        \<lparr>category_id = Some 5, history = [link_preview, staff_reply]\<rparr> False =
       \<lparr>raised = Some AttributeError,
        chan = \<lparr>category_id = Some 5, history = [link_preview, staff_reply]\<rparr>,
        effects = [FetchHistory]\<rparr>"
  by code_simp

text \<open>
  C3, amended. A user reply on a channel outside the recruitment category. If the scan
  returns, a staff-marked message exists in the history, and the waiting-on-staff
  category is set to an id the platform resolves with the channel not already in it,
  then the move to that category is requested and no exception leaves the handler. If
  no staff-marked message exists in the history, no move is requested and the channel
  is left as it was.
\<close>

theorem user_reply_routing:
  "(has_mod_replied b ch = Inr m \<and> list_ex (staff_marked b) (history ch)
      \<and> well_formed (get_config d ''recruitment_id'') \<and> \<not> in_recruitment d ch
      \<and> get_config d ''waiting_staff_message_category_id'' = PyStr s
      \<and> int_of_str s = Some c \<and> channels b c \<and> category_id ch \<noteq> Some c \<longrightarrow>
    decision_of (on_thread_reply b d ch False) = MoveTo c
    \<and> on_thread_reply b d ch False = after [FetchHistory] (move_channel b ch (PyStr s))
    \<and> raised (on_thread_reply b d ch False) = None)
   \<and> (\<not> list_ex (staff_marked b) (history ch) \<longrightarrow>
    decision_of (on_thread_reply b d ch False) = NoOp
    \<and> effects (on_thread_reply b d ch False) = [FetchHistory]
    \<and> chan (on_thread_reply b d ch False) = ch)"
proof (intro conjI impI)
  assume a: "has_mod_replied b ch = Inr m \<and> list_ex (staff_marked b) (history ch)
      \<and> well_formed (get_config d ''recruitment_id'') \<and> \<not> in_recruitment d ch
      \<and> get_config d ''waiting_staff_message_category_id'' = PyStr s
      \<and> int_of_str s = Some c \<and> channels b c \<and> category_id ch \<noteq> Some c"
  then have m: "m" using has_mod_replied_Inr [of b ch m] by simp
  from a have p: "py_int (PyStr s) = Inr c" by simp
  then have t: "truthy (PyStr s)" by (rule py_int_truthy)
  from a m t
  show r: "on_thread_reply b d ch False = after [FetchHistory] (move_channel b ch (PyStr s))"
    by (simp add: on_thread_reply_routed)
  from a have mv: "channels b c" "category_id ch \<noteq> Some c" by simp_all
  show "decision_of (on_thread_reply b d ch False) = MoveTo c"
    unfolding r decision_of_def
    by (simp add: move_channel_moves [OF p mv] split: option.splits)
  show "raised (on_thread_reply b d ch False) = None"
    unfolding r by (simp add: move_channel_moves [OF p mv] split: option.splits)
next
  assume n: "\<not> list_ex (staff_marked b) (history ch)"
  have "effects (on_thread_reply b d ch False) = [FetchHistory]
        \<and> chan (on_thread_reply b d ch False) = ch"
  proof (cases "has_mod_replied b ch")
    case (Inl e)
    then show ?thesis by (simp add: on_thread_reply_scan_failed)
  next
    case (Inr m)
    with n have "has_mod_replied b ch = Inr False"
      using has_mod_replied_Inr [of b ch m] by simp
    then show ?thesis
      by (auto simp: on_thread_reply_def Let_def split: sum.splits)
  qed
  then show "decision_of (on_thread_reply b d ch False) = NoOp"
    and "effects (on_thread_reply b d ch False) = [FetchHistory]"
    and "chan (on_thread_reply b d ch False) = ch"
    by (simp_all add: decision_of_def)
qed

theorem user_reply_routing_witness:
  "decision_of (on_thread_reply demo_bot demo_db
     \<lparr>category_id = Some 101, history = [staff_reply, user_message]\<rparr> False) = MoveTo 102
   \<and> decision_of (on_thread_reply demo_bot demo_db
     \<lparr>category_id = Some 5, history = [user_message]\<rparr> False) = NoOp"
proof -
  let ?ch = "\<lparr>category_id = Some 101, history = [staff_reply, user_message]\<rparr>"
  let ?ch' = "\<lparr>category_id = Some 5, history = [user_message]\<rparr>"
  have 1: "has_mod_replied demo_bot ?ch = Inr True" by code_simp
  have 2: "list_ex (staff_marked demo_bot) (history ?ch)" by code_simp
  have 3: "well_formed (get_config demo_db ''recruitment_id'')" by code_simp
  have 4: "\<not> in_recruitment demo_db ?ch" by code_simp
  have 5: "int_of_str ''102'' = Some 102" by code_simp
  have 6: "channels demo_bot 102" by (simp add: demo_bot_def)
  have 7: "category_id ?ch \<noteq> Some 102" by simp
  have 8: "\<not> list_ex (staff_marked demo_bot) (history ?ch')" by code_simp
  from user_reply_routing [of demo_bot ?ch True demo_db "''102''" 102]
       1 2 3 4 5 6 7 demo_db_waiting_staff
  have a: "decision_of (on_thread_reply demo_bot demo_db ?ch False) = MoveTo 102" by blast
  from user_reply_routing [of demo_bot ?ch' True demo_db "''102''" 102] 8
  have b: "decision_of (on_thread_reply demo_bot demo_db ?ch' False) = NoOp" by blast
  from a b show ?thesis by simp
qed

text \<open>
  C4. \<open>move_channel\<close> is not total, and it does not look at the kind of what the id
  resolves to: on an unset id it raises \<^verbatim>\<open>TypeError\<close>, from the conversion that is its
  first statement, and on the id of an existing channel that is no category it asks the
  platform for the move and prints the platform's refusal.
\<close>

theorem move_channel_raises_or_edits:
  "move_channel demo_bot \<lparr>category_id = Some 5, history = [user_message]\<rparr> PyNone =
     \<lparr>raised = Some TypeError, chan = \<lparr>category_id = Some 5, history = [user_message]\<rparr>,
      effects = []\<rparr>
   \<and> \<not> existing_category
         (demo_bot\<lparr>channels := \<lambda>c. c \<in> {101, 102, 103, 104, 200},
                    edit_failure := \<lambda>c. if c = 200 then Some ''400 Bad Request'' else None\<rparr>)
         200
   \<and> move_channel
        (demo_bot\<lparr>channels := \<lambda>c. c \<in> {101, 102, 103, 104, 200},
                   edit_failure := \<lambda>c. if c = 200 then Some ''400 Bad Request'' else None\<rparr>)
        \<lparr>category_id = Some 5, history = [user_message]\<rparr> (PyStr ''200'') =
     \<lparr>raised = None, chan = \<lparr>category_id = Some 5, history = [user_message]\<rparr>,
      effects = [EditCategory 200, Print ''Failed to move the channel: 400 Bad Request'']\<rparr>"
  by code_simp

text \<open>
  C4, amended. Both callers of \<open>move_channel\<close> test the id first, so it is never given an
  unset one: no \<^verbatim>\<open>TypeError\<close> leaves the reply handler or the closing command. On an
  id that converts, \<open>move_channel\<close> does nothing and raises nothing when the platform
  resolves the id to no channel at all, and when the channel's category is already that
  id, so a call with the now-current target does nothing. On an id that resolves, to a
  category or not, with the channel elsewhere, the move is requested.
\<close>

theorem move_channel_noop:
  "(py_int cid = Inr c \<and> \<not> channels b c \<longrightarrow>
      move_channel b ch cid = \<lparr>raised = None, chan = ch, effects = []\<rparr>)
   \<and> (py_int cid = Inr c \<and> category_id ch = Some c \<longrightarrow>
      move_channel b ch cid = \<lparr>raised = None, chan = ch, effects = []\<rparr>)
   \<and> (py_int cid = Inr c \<and> channels b c \<and> category_id ch \<noteq> Some c \<longrightarrow>
      (\<exists>es. effects (move_channel b ch cid) = EditCategory c # es)
      \<and> raised (move_channel b ch cid) = None)
   \<and> raised (on_thread_reply b d ch from_mod) \<noteq> Some TypeError
   \<and> raised (move_to_closing_category b d ch is_thread) \<noteq> Some TypeError"
proof -
  have "(\<exists>es. effects (move_channel b ch cid) = EditCategory c # es)
        \<and> raised (move_channel b ch cid) = None"
    if "py_int cid = Inr c" "channels b c" "category_id ch \<noteq> Some c"
    using that by (simp add: move_channel_moves split: option.splits)
  then show ?thesis
    by (simp add: move_channel_unresolved move_channel_already_there
                  on_thread_reply_no_TypeError move_to_closing_category_no_TypeError)
qed

theorem move_channel_noop_witness:
  "move_channel demo_bot \<lparr>category_id = Some 5, history = []\<rparr> (PyStr ''999'') =
     \<lparr>raised = None, chan = \<lparr>category_id = Some 5, history = []\<rparr>, effects = []\<rparr>
   \<and> move_channel demo_bot \<lparr>category_id = Some 101, history = []\<rparr> (PyStr ''101'') =
     \<lparr>raised = None, chan = \<lparr>category_id = Some 101, history = []\<rparr>, effects = []\<rparr>
   \<and> (\<exists>es. effects (move_channel demo_bot \<lparr>category_id = Some 5, history = []\<rparr>
          (PyStr ''101'')) = EditCategory 101 # es)"
proof -
  have 1: "py_int (PyStr ''999'') = Inr 999" by code_simp
  have 2: "py_int (PyStr ''101'') = Inr 101" by code_simp
  have 3: "\<not> channels demo_bot 999" by (simp add: demo_bot_def)
  have 4: "channels demo_bot 101" by (simp add: demo_bot_def)
  have 5: "category_id \<lparr>category_id = Some 5, history = []\<rparr> \<noteq> Some 101" by simp
  have 6: "category_id \<lparr>category_id = Some 101, history = []\<rparr> = Some 101" by simp
  from move_channel_noop [of "PyStr ''999''" 999 demo_bot "\<lparr>category_id = Some 5, history = []\<rparr>"] 1 3
  have a: "move_channel demo_bot \<lparr>category_id = Some 5, history = []\<rparr> (PyStr ''999'') =
     \<lparr>raised = None, chan = \<lparr>category_id = Some 5, history = []\<rparr>, effects = []\<rparr>"
    by blast
  from move_channel_noop [of "PyStr ''101''" 101 demo_bot "\<lparr>category_id = Some 101, history = []\<rparr>"] 2 6
  have b: "move_channel demo_bot \<lparr>category_id = Some 101, history = []\<rparr> (PyStr ''101'') =
     \<lparr>raised = None, chan = \<lparr>category_id = Some 101, history = []\<rparr>, effects = []\<rparr>"
    by blast
  from move_channel_noop [of "PyStr ''101''" 101 demo_bot "\<lparr>category_id = Some 5, history = []\<rparr>"] 2 4 5
  have c: "\<exists>es. effects (move_channel demo_bot \<lparr>category_id = Some 5, history = []\<rparr>
          (PyStr ''101'')) = EditCategory 101 # es"
    by blast
  from a b c show ?thesis by (intro conjI)
qed

text \<open>
  C5 (the code fails the claim). A staff reply with no waiting-on-user category
  configured, on a channel whose history holds an embed without colour: the handler
  raises from the scan instead of returning silently. So does a user reply with no
  waiting-on-staff category configured.
\<close>

theorem unset_target_reply_raises:
  "get_config (ensure_config_keys Map.empty) ''waiting_user_message_category_id'' = PyNone
   \<and> on_thread_reply demo_bot (ensure_config_keys Map.empty)
        \<lparr>category_id = Some 5, history = [link_preview]\<rparr> True =
       \<lparr>raised = Some AttributeError, chan = \<lparr>category_id = Some 5, history = [link_preview]\<rparr>,
        effects = [FetchHistory]\<rparr>
   \<and> get_config (ensure_config_keys Map.empty) ''waiting_staff_message_category_id'' = PyNone
   \<and> on_thread_reply demo_bot (ensure_config_keys Map.empty)
        \<lparr>category_id = Some 5, history = [link_preview, staff_reply]\<rparr> False =
       \<lparr>raised = Some AttributeError,
        chan = \<lparr>category_id = Some 5, history = [link_preview, staff_reply]\<rparr>,
        effects = [FetchHistory]\<rparr>"
  by code_simp

text \<open>
  C6. When the platform fails the edit, \<open>move_channel\<close> catches the exception, prints it
  and returns normally, having asked for the move once and left the channel where it
  was; the reply handler that called it returns normally as well.
\<close>

theorem move_channel_contains_failure:
  assumes "py_int cid = Inr c" and "channels b c" and "category_id ch \<noteq> Some c"
    and "edit_failure b c = Some e"
  shows "move_channel b ch cid =
           \<lparr>raised = None, chan = ch,
            effects = [EditCategory c, Print (''Failed to move the channel: '' @ e)]\<rparr>
       \<and> (has_mod_replied b ch = Inr m \<and> well_formed (get_config d ''recruitment_id'')
            \<and> \<not> in_recruitment d ch
            \<and> get_config d ''waiting_user_message_category_id'' = cid \<longrightarrow>
          on_thread_reply b d ch True =
            \<lparr>raised = None, chan = ch,
             effects = [FetchHistory, EditCategory c,
                        Print (''Failed to move the channel: '' @ e)]\<rparr>)"
proof -
  from assms have mv: "move_channel b ch cid =
      \<lparr>raised = None, chan = ch,
       effects = [EditCategory c, Print (''Failed to move the channel: '' @ e)]\<rparr>"
    by (simp add: move_channel_moves)
  from assms(1) have "truthy cid" by (rule py_int_truthy)
  with mv show ?thesis by (auto simp: on_thread_reply_routed after_def)
qed

theorem move_channel_contains_failure_witness:
  "move_channel (demo_bot\<lparr>edit_failure := \<lambda>c. Some ''403 Forbidden''\<rparr>)
     \<lparr>category_id = Some 5, history = [user_message]\<rparr> (PyStr ''101'') =
     \<lparr>raised = None, chan = \<lparr>category_id = Some 5, history = [user_message]\<rparr>,
      effects = [EditCategory 101, Print ''Failed to move the channel: 403 Forbidden'']\<rparr>
   \<and> on_thread_reply (demo_bot\<lparr>edit_failure := \<lambda>c. Some ''403 Forbidden''\<rparr>) demo_db
     \<lparr>category_id = Some 5, history = [user_message]\<rparr> True =
     \<lparr>raised = None, chan = \<lparr>category_id = Some 5, history = [user_message]\<rparr>,
      effects = [FetchHistory, EditCategory 101,
                 Print ''Failed to move the channel: 403 Forbidden'']\<rparr>"
proof -
  let ?b = "demo_bot\<lparr>edit_failure := \<lambda>c. Some ''403 Forbidden''\<rparr>"
  let ?ch = "\<lparr>category_id = Some 5, history = [user_message]\<rparr>"
  have 1: "py_int (PyStr ''101'') = Inr 101" by code_simp
  have 2: "channels ?b 101" by (simp add: demo_bot_def)
  have 3: "category_id ?ch \<noteq> Some 101" by simp
  have 4: "edit_failure ?b 101 = Some ''403 Forbidden''" by simp
  have 5: "has_mod_replied ?b ?ch = Inr False" by code_simp
  have 6: "well_formed (get_config demo_db ''recruitment_id'')" by code_simp
  have 7: "\<not> in_recruitment demo_db ?ch" by code_simp
  from move_channel_contains_failure [OF 1 2 3 4, of False demo_db] 5 6 7 demo_db_waiting_user
  show ?thesis by simp
qed

text \<open>
  C7 (the code fails the claim). A history that holds a staff-marked message, read after
  a message whose embed has no colour: the scan raises instead of returning true.
\<close>

theorem has_mod_replied_raises_before_match:
  "list_ex (staff_marked demo_bot) [link_preview, staff_reply]
   \<and> has_mod_replied demo_bot \<lparr>category_id = Some 5, history = [link_preview, staff_reply]\<rparr>
       = Inl AttributeError
   \<and> \<not> list_ex (staff_marked demo_bot) [user_message, link_preview]
   \<and> has_mod_replied demo_bot \<lparr>category_id = Some 5, history = [user_message, link_preview]\<rparr>
       = Inl AttributeError"
  by code_simp

text \<open>
  C8. The scan is performed on recruitment channels and for staff replies too: it is
  the handler's first statement, and on a history with an embed without colour the
  handler raises on a recruitment channel, and for a staff reply, as it does anywhere.
\<close>

theorem scan_not_confined_to_user_branch:
  "in_recruitment demo_db \<lparr>category_id = Some 104, history = [link_preview]\<rparr>
   \<and> on_thread_reply demo_bot demo_db \<lparr>category_id = Some 104, history = [link_preview]\<rparr> False =
       \<lparr>raised = Some AttributeError,
        chan = \<lparr>category_id = Some 104, history = [link_preview]\<rparr>,
        effects = [FetchHistory]\<rparr>
   \<and> \<not> in_recruitment demo_db \<lparr>category_id = Some 5, history = [link_preview]\<rparr>
   \<and> on_thread_reply demo_bot demo_db \<lparr>category_id = Some 5, history = [link_preview]\<rparr> True =
       \<lparr>raised = Some AttributeError,
        chan = \<lparr>category_id = Some 5, history = [link_preview]\<rparr>,
        effects = [FetchHistory]\<rparr>"
  by code_simp

text \<open>
  C8, amended. The handler performs the scan first, on every reply event: the history
  request is its first effect, and a scan that raises ends the event with that
  exception whatever the channel and the sender. The recruitment test comes next and
  short-circuits the rest. The result of the scan is used in the user branch only: for
  a staff reply and on a recruitment channel, two histories on which the scan returns
  give the same outcome.
\<close>

theorem scan_runs_first:
  "(\<exists>es. effects (on_thread_reply b d ch from_mod) = FetchHistory # es)
   \<and> (has_mod_replied b ch = Inl e \<longrightarrow>
        on_thread_reply b d ch from_mod =
          \<lparr>raised = Some e, chan = ch, effects = [FetchHistory]\<rparr>)
   \<and> (has_mod_replied b ch = Inr m \<and> in_recruitment d ch \<longrightarrow>
        on_thread_reply b d ch from_mod =
          \<lparr>raised = None, chan = ch, effects = [FetchHistory]\<rparr>)
   \<and> (has_mod_replied b ch = Inr m \<and> has_mod_replied b (ch\<lparr>history := h\<rparr>) = Inr m'
        \<and> (from_mod \<or> in_recruitment d ch) \<longrightarrow>
        raised (on_thread_reply b d (ch\<lparr>history := h\<rparr>) from_mod) =
          raised (on_thread_reply b d ch from_mod)
        \<and> effects (on_thread_reply b d (ch\<lparr>history := h\<rparr>) from_mod) =
          effects (on_thread_reply b d ch from_mod)
        \<and> chan (on_thread_reply b d (ch\<lparr>history := h\<rparr>) from_mod) =
          (chan (on_thread_reply b d ch from_mod))\<lparr>history := h\<rparr>)"
proof (intro conjI impI)
  show "\<exists>es. effects (on_thread_reply b d ch from_mod) = FetchHistory # es"
    by (auto simp: on_thread_reply_def Let_def split: sum.splits)
next
  assume "has_mod_replied b ch = Inl e"
  then show "on_thread_reply b d ch from_mod =
      \<lparr>raised = Some e, chan = ch, effects = [FetchHistory]\<rparr>"
    by (rule on_thread_reply_scan_failed)
next
  assume "has_mod_replied b ch = Inr m \<and> in_recruitment d ch"
  then show "on_thread_reply b d ch from_mod =
      \<lparr>raised = None, chan = ch, effects = [FetchHistory]\<rparr>"
    by (simp add: on_thread_reply_exempt)
next
  assume a: "has_mod_replied b ch = Inr m \<and> has_mod_replied b (ch\<lparr>history := h\<rparr>) = Inr m'
        \<and> (from_mod \<or> in_recruitment d ch)"
  have eq: "on_thread_reply b d (ch\<lparr>history := h\<rparr>) from_mod =
      (on_thread_reply b d ch from_mod)
        \<lparr>chan := (chan (on_thread_reply b d ch from_mod))\<lparr>history := h\<rparr>\<rparr>"
  proof (cases "in_recruitment d ch")
    case True
    then have "in_recruitment d (ch\<lparr>history := h\<rparr>)" by (simp add: in_recruitment_history)
    with a True show ?thesis by (simp add: on_thread_reply_exempt)
  next
    case False
    with a have fm: "from_mod" by simp
    with a show ?thesis
      by (auto simp: on_thread_reply_def Let_def after_def move_channel_history
               split: sum.splits)
  qed
  show "raised (on_thread_reply b d (ch\<lparr>history := h\<rparr>) from_mod) =
          raised (on_thread_reply b d ch from_mod)"
    and "effects (on_thread_reply b d (ch\<lparr>history := h\<rparr>) from_mod) =
          effects (on_thread_reply b d ch from_mod)"
    and "chan (on_thread_reply b d (ch\<lparr>history := h\<rparr>) from_mod) =
          (chan (on_thread_reply b d ch from_mod))\<lparr>history := h\<rparr>"
    by (simp_all add: eq)
qed

theorem scan_runs_first_witness:
  "on_thread_reply demo_bot demo_db \<lparr>category_id = Some 104, history = [link_preview]\<rparr> True =
     \<lparr>raised = Some AttributeError,
      chan = \<lparr>category_id = Some 104, history = [link_preview]\<rparr>,
      effects = [FetchHistory]\<rparr>
   \<and> on_thread_reply demo_bot demo_db \<lparr>category_id = Some 104, history = [staff_reply]\<rparr> False =
     \<lparr>raised = None, chan = \<lparr>category_id = Some 104, history = [staff_reply]\<rparr>,
      effects = [FetchHistory]\<rparr>
   \<and> effects (on_thread_reply demo_bot demo_db
        \<lparr>category_id = Some 5, history = [staff_reply]\<rparr> True) =
       effects (on_thread_reply demo_bot demo_db
        \<lparr>category_id = Some 5, history = [user_message]\<rparr> True)"
proof -
  let ?r = "\<lparr>category_id = Some 104, history = [link_preview]\<rparr>"
  let ?r' = "\<lparr>category_id = Some 104, history = [staff_reply]\<rparr>"
  let ?ch = "\<lparr>category_id = Some 5, history = [user_message]\<rparr>"
  have 1: "has_mod_replied demo_bot ?r = Inl AttributeError" by code_simp
  have 2: "has_mod_replied demo_bot ?r' = Inr True" by code_simp
  have 3: "in_recruitment demo_db ?r'" by code_simp
  have 4: "has_mod_replied demo_bot ?ch = Inr False" by code_simp
  have 5: "has_mod_replied demo_bot (?ch\<lparr>history := [staff_reply]\<rparr>) = Inr True" by code_simp
  from scan_runs_first [of demo_bot demo_db ?r True AttributeError] 1
  have a: "on_thread_reply demo_bot demo_db ?r True =
      \<lparr>raised = Some AttributeError, chan = ?r, effects = [FetchHistory]\<rparr>"
    by blast
  from scan_runs_first [of demo_bot demo_db ?r' False _ True] 2 3
  have b: "on_thread_reply demo_bot demo_db ?r' False =
      \<lparr>raised = None, chan = ?r', effects = [FetchHistory]\<rparr>"
    by blast
  from scan_runs_first [of demo_bot demo_db ?ch True _ False "[staff_reply]" True] 4 5
  have "effects (on_thread_reply demo_bot demo_db (?ch\<lparr>history := [staff_reply]\<rparr>) True) =
      effects (on_thread_reply demo_bot demo_db ?ch True)"
    by blast
  then have c: "effects (on_thread_reply demo_bot demo_db
        \<lparr>category_id = Some 5, history = [staff_reply]\<rparr> True) =
       effects (on_thread_reply demo_bot demo_db ?ch True)"
    by simp
  from a b c show ?thesis by (intro conjI)
qed

text \<open>
  C9. \<open>ensure_config_keys\<close> is idempotent: run any positive number of times on any store,
  it leaves the store that one run leaves, so the same keys and the same value under
  every key.
\<close>

theorem ensure_config_keys_idempotent:
  "(ensure_config_keys ^^ Suc n) d = ensure_config_keys d
   \<and> dom ((ensure_config_keys ^^ Suc n) d) = dom (ensure_config_keys d)
   \<and> (\<forall>key. get_config ((ensure_config_keys ^^ Suc n) d) key =
              get_config (ensure_config_keys d) key)"
proof -
  have "(ensure_config_keys ^^ Suc n) d = ensure_config_keys d"
    by (induction n) (simp_all add: ensure_config_keys_twice)
  then show ?thesis by simp
qed

theorem ensure_config_keys_idempotent_witness:
  "(ensure_config_keys ^^ 3) demo_db = ensure_config_keys demo_db
   \<and> (ensure_config_keys ^^ 3) Map.empty = ensure_config_keys Map.empty"
  using ensure_config_keys_idempotent [of 2 demo_db]
        ensure_config_keys_idempotent [of 2 Map.empty]
  by (simp add: numeral_3_eq_3)

text \<open>
  C10. \<open>has_mod_replied\<close> returns a value exactly when every embed it reads before it
  meets a staff-marked one carries a colour; an embed without colour read before any
  match makes it raise \<^verbatim>\<open>AttributeError\<close>. So it is not total over histories.
\<close>

theorem has_mod_replied_partial:
  "(\<exists>m. has_mod_replied b ch = Inr m) =
     list_all (\<lambda>e. color e \<noteq> None) (scanned_before_match b ch)
   \<and> (has_mod_replied b ch = Inl AttributeError) =
     (\<not> list_all (\<lambda>e. color e \<noteq> None) (scanned_before_match b ch))"
proof (cases "list_all (\<lambda>e. color e \<noteq> None) (scanned_before_match b ch)")
  case True
  then have "has_mod_replied b ch = Inr (list_ex (staff_marked b) (history ch))"
    by (simp add: has_mod_replied_char)
  with True show ?thesis by simp
next
  case False
  then have "has_mod_replied b ch = Inl AttributeError"
    by (simp add: has_mod_replied_char)
  with False show ?thesis by simp
qed

theorem has_mod_replied_partial_witness:
  "has_mod_replied demo_bot \<lparr>category_id = Some 5, history = [user_message, link_preview]\<rparr>
     = Inl AttributeError
   \<and> (\<exists>m. has_mod_replied demo_bot
         \<lparr>category_id = Some 5, history = [staff_reply, link_preview]\<rparr> = Inr m)"
proof -
  have 1: "\<not> list_all (\<lambda>e. color e \<noteq> None)
             (scanned_before_match demo_bot
                \<lparr>category_id = Some 5, history = [user_message, link_preview]\<rparr>)"
    by code_simp
  have 2: "list_all (\<lambda>e. color e \<noteq> None)
             (scanned_before_match demo_bot
                \<lparr>category_id = Some 5, history = [staff_reply, link_preview]\<rparr>)"
    by code_simp
  from has_mod_replied_partial
         [of demo_bot "\<lparr>category_id = Some 5, history = [user_message, link_preview]\<rparr>"]
       has_mod_replied_partial
         [of demo_bot "\<lparr>category_id = Some 5, history = [staff_reply, link_preview]\<rparr>"]
       1 2
  show ?thesis by blast
qed

end
